theory Spec2Isabelle
  imports Main
begin

section \<open>JavaScript values used by server.js\<close>

text \<open>
  The values that the descriptor fields, the request fields and the message payload of
  \<^verbatim>\<open>server.js\<close> can hold. Numbers are the integers (timestamps, the timeout); objects and
  arrays as field values are not modelled.
\<close>

datatype jsval = JUndefined | JNull | JBool bool | JNum int | JStr string

text \<open>Truthiness, as tested by \<^verbatim>\<open>if (x)\<close>, \<^verbatim>\<open>!x\<close> and \<^verbatim>\<open>x || y\<close>.\<close>

fun truthy :: "jsval \<Rightarrow> bool" where
  "truthy JUndefined = False"
| "truthy JNull = False"
| "truthy (JBool b) = b"
| "truthy (JNum n) = (n \<noteq> 0)"
| "truthy (JStr s) = (s \<noteq> [])"

text \<open>The decimal digits of a number, as \<^verbatim>\<open>Number.prototype.toString\<close> writes an integer.\<close>

fun nat_toString :: "nat \<Rightarrow> string" where
  "nat_toString n =
     (if 10 \<le> n then nat_toString (n div 10) @ [''0123456789'' ! (n mod 10)]
      else [''0123456789'' ! n])"

declare nat_toString.simps [simp del]

definition num_toString :: "int \<Rightarrow> string" where
  "num_toString i = (if 0 \<le> i then nat_toString (nat i) else CHR ''-'' # nat_toString (nat (- i)))"

text \<open>String conversion, as done by a template literal and by \<^verbatim>\<open>+\<close> with a string.\<close>

fun js_toString :: "jsval \<Rightarrow> string" where
  "js_toString JUndefined = ''undefined''"
| "js_toString JNull = ''null''"
| "js_toString (JBool b) = (if b then ''true'' else ''false'')"
| "js_toString (JNum n) = num_toString n"
| "js_toString (JStr s) = s"

text \<open>
  An element of the \<^verbatim>\<open>context\<close> array handed to \<^verbatim>\<open>runScript\<close>: the route handlers push
  strings, the cron callback passes an array nested in the array. \<^verbatim>\<open>child_process.spawn\<close>
  turns every argument into a string; an array becomes its elements joined by commas.
\<close>

datatype js_arg = AStr string | AArr "string list"



text \<open>\<^verbatim>\<open>String.prototype.includes\<close>: the pattern occurs somewhere in the string.\<close>

fun starts_with :: "string \<Rightarrow> string \<Rightarrow> bool" where
  "starts_with s [] = True"
| "starts_with [] (p # ps) = False"
| "starts_with (c # cs) (p # ps) = (c = p \<and> starts_with cs ps)"

fun includes_str :: "string \<Rightarrow> string \<Rightarrow> bool" where
  "includes_str [] pat = (pat = [])"
| "includes_str (c # cs) pat = (starts_with (c # cs) pat \<or> includes_str cs pat)"

section \<open>Descriptors, child processes and the server state\<close>

text \<open>
  The \<^verbatim>\<open>.cog\<close> descriptor object (\<^verbatim>\<open>entryFile\<close>, \<^verbatim>\<open>cogFile\<close>, \<^verbatim>\<open>cogScript\<close>). \<open>cronTask\<close> is the
  \<^verbatim>\<open>_cronTask\<close> property that \<^verbatim>\<open>addCronTrigger\<close> attaches: whether a task handle is present.
\<close>

record cogFile =
  id_cog :: jsval
  created :: jsval
  updated :: jsval
  name :: jsval
  runtime :: jsval
  webhook :: jsval
  cron :: jsval
  cronSchedule :: jsval
  entrypoint :: jsval
  timeout :: jsval
  cronTask :: bool

text \<open>
  Paths below the working directory: \<^verbatim>\<open>./data\<close>, \<^verbatim>\<open>./data/scripts\<close>,
  \<^verbatim>\<open>./data/scripts/<id>\<close> and \<^verbatim>\<open>./data/scripts/<id>/<file>\<close>. \<^verbatim>\<open>path.resolve\<close> is taken to keep
  distinct pairs of id and file name distinct; \<open>path_string\<close> writes a path as the source
  writes it, before \<^verbatim>\<open>path.resolve\<close> makes it absolute.
\<close>

datatype path = Data | Scripts | ScriptDir string | ScriptFile string string

fun path_string :: "path \<Rightarrow> string" where
  "path_string Data = ''./data''"
| "path_string Scripts = ''./data/scripts''"
| "path_string (ScriptDir d) = ''./data/scripts/'' @ d"
| "path_string (ScriptFile d f) = ''./data/scripts/'' @ d @ ''/'' @ f"

datatype exn =
    TypeError_null          \<comment> \<open>property access on \<^verbatim>\<open>null\<close> or \<^verbatim>\<open>undefined\<close>\<close>
  | ERR_HTTP_HEADERS_SENT   \<comment> \<open>a second \<^verbatim>\<open>res.json\<close>/\<^verbatim>\<open>res.send\<close> on one response\<close>
  | ERR_INVALID_ARG_TYPE    \<comment> \<open>\<^verbatim>\<open>fs.writeFileSync\<close> with data that is not a string\<close>
  | ENOENT                  \<comment> \<open>the directory of a file to write does not exist\<close>
  | EEXIST                  \<comment> \<open>\<^verbatim>\<open>fs.mkdirSync\<close> on an existing path\<close>
  | EISDIR                  \<comment> \<open>reading or writing a path that is a directory\<close>
  | SyntaxError             \<comment> \<open>\<^verbatim>\<open>JSON.parse\<close> on text that is not JSON\<close>
  | InvalidCron             \<comment> \<open>\<^verbatim>\<open>nodeCron.schedule\<close> refuses the expression\<close>
  | Unhandled_error_event   \<comment> \<open>an \<^verbatim>\<open>'error'\<close> event on an emitter without an \<^verbatim>\<open>'error'\<close> listener\<close>

text \<open>The bodies that the handlers send.\<close>

datatype body =
    Message string
  | Text string
  | IdBody "jsval"
  | RunResult string string string

record response =
  statusCode :: nat
  headersSent :: bool

text \<open>
  The listeners of the source, named by the function that registers them and the event:
  \<^verbatim>\<open>runScript\<close> registers \<open>RunScriptExit\<close> and \<open>RunScriptStdout\<close>, the handler of
  \<^verbatim>\<open>POST /api/v1/run/:script\<close> registers \<open>RunStdout\<close>, \<open>RunStderr\<close> and \<open>RunExit\<close>.
\<close>

datatype listener = RunScriptExit | RunScriptStdout | RunStdout | RunStderr | RunExit

text \<open>
  One spawned \<^verbatim>\<open>ChildProcess\<close> with the variables of the closures around it: those of
  \<^verbatim>\<open>runScript\<close> (\<open>cogScript\<close>, \<open>message\<close>, \<open>spawnedProcessRunning\<close>,
  \<open>spawnedProcessMessageSent\<close>, the pending timer and its delay) and those of the run
  handler (\<open>consoleOutput\<close>, \<open>consoleError\<close>, \<open>res\<close>). \<open>exited\<close> says whether the operating
  system process has ended; \<open>killed\<close> is the property of that name.
\<close>

record child =
  command :: string
  args :: "js_arg list"
  cogScript :: cogFile
  message :: jsval
  spawnedProcessRunning :: bool
  spawnedProcessMessageSent :: bool
  killed :: bool
  exited :: bool
  on_exit :: "listener list"
  on_stdout :: "listener list"
  on_stderr :: "listener list"
  timer :: "jsval option"
  consoleOutput :: string
  consoleError :: string
  res :: "response option"

text \<open>What the server does to the outside, in the order in which it does it.\<close>

datatype effect =
    ConsoleLog string
  | ConsoleWarn string
  | ConsoleError string
  | StdinWrite nat string       \<comment> \<open>\<^verbatim>\<open>spawnedProcess.stdin.write\<close> on child number n\<close>
  | RemoveAllListeners nat
  | Kill nat                    \<comment> \<open>\<^verbatim>\<open>spawnedProcess.kill()\<close> on child number n\<close>
  | Respond nat body            \<comment> \<open>a response leaves with this status and body\<close>

record server =
  scripts :: "cogFile list"
  dirs :: "path list"
  files :: "path \<rightharpoonup> string"
  children :: "child list"
  effects :: "effect list"

definition emit_effect :: "effect \<Rightarrow> server \<Rightarrow> server" where
  "emit_effect e s = s\<lparr>effects := effects s @ [e]\<rparr>"

definition upd_child :: "nat \<Rightarrow> (child \<Rightarrow> child) \<Rightarrow> server \<Rightarrow> server" where
  "upd_child i f s =
     (if i < length (children s) then s\<lparr>children := (children s)[i := f (children s ! i)]\<rparr>
      else s)"

section \<open>runScript\<close>

definition script_file :: "cogFile \<Rightarrow> path" where
  "script_file c = ScriptFile (js_toString (id_cog c)) (js_toString (entrypoint c))"

text \<open>
  \<^verbatim>\<open>runScript(cogScriptId, context, message)\<close>. The result is the state after the call and
  what the call gives back: an exception, \<^verbatim>\<open>undefined\<close> (\<open>Inr None\<close>), or the spawned
  process (the number of the new child). With a runtime other than \<^verbatim>\<open>'nodejs'\<close> the variable
  \<^verbatim>\<open>spawnedProcess\<close> is still \<^verbatim>\<open>null\<close> at \<^verbatim>\<open>spawnedProcess.on('exit', ...)\<close>.
\<close>

definition runScript :: "jsval \<Rightarrow> js_arg list \<Rightarrow> jsval \<Rightarrow> server \<Rightarrow> server \<times> (exn + nat option)" where
  "runScript cogScriptId context msg s =
     (case find (\<lambda>i. id_cog i = cogScriptId) (scripts s) of
        None \<Rightarrow>
          (emit_effect (ConsoleError (''Could not locate cog script '' @ js_toString cogScriptId
                                       @ '' in runtime'')) s,
           Inr None)
      | Some cs \<Rightarrow>
          if runtime cs = JStr ''nodejs'' then
            (s\<lparr>children := children s @
                 [\<lparr>command = ''node'',
                   args = AStr (path_string (script_file cs)) # context,
                   cogScript = cs,
                   message = msg,
                   spawnedProcessRunning = True,
                   spawnedProcessMessageSent = False,
                   killed = False,
                   exited = False,
                   on_exit = [RunScriptExit],
                   on_stdout = [RunScriptStdout],
                   on_stderr = [],
                   timer = Some (timeout cs),
                   consoleOutput = [],
                   consoleError = [],
                   res = None\<rparr>]\<rparr>,
             Inr (Some (length (children s))))
          else (s, Inl TypeError_null))"

section \<open>Events of a child process\<close>

text \<open>
  What the event loop can deliver for one child: a chunk on its stdout or stderr, its
  \<^verbatim>\<open>'exit'\<close>, an \<^verbatim>\<open>'error'\<close> (the process could not be started), and the firing of the
  timer that \<^verbatim>\<open>runScript\<close> armed with \<^verbatim>\<open>setTimeout\<close>.
\<close>

datatype child_event = StdoutData string | StderrData string | ProcExit | ProcError | TimerFired

text \<open>The argument of \<^verbatim>\<open>stdin.write\<close>: \<^verbatim>\<open>message + '\n' || '\n'\<close>, where \<^verbatim>\<open>+\<close> binds tighter.\<close>

definition stdin_payload :: "jsval \<Rightarrow> string" where
  "stdin_payload msg =
     (let s = js_toString msg @ [CHR 0x0A] in if s \<noteq> [] then s else [CHR 0x0A])"

definition res_send :: "body \<Rightarrow> response \<Rightarrow> server \<Rightarrow> exn + (response \<times> server)" where
  "res_send b r s =
     (if headersSent r then Inl ERR_HTTP_HEADERS_SENT
      else Inr (r\<lparr>headersSent := True\<rparr>, emit_effect (Respond (statusCode r) b) s))"

text \<open>
  The body of each listener, run for child \<open>i\<close> (which exists) on the chunk \<open>d\<close>; the
  \<^verbatim>\<open>'exit'\<close> listeners take no chunk. The result is the new state and the exception the
  listener threw, if any. \<open>RunExit\<close> is registered together with \<open>res\<close>, so its first case
  does not arise.
\<close>

fun run_listener :: "listener \<Rightarrow> nat \<Rightarrow> string \<Rightarrow> server \<Rightarrow> server \<times> exn option" where
  "run_listener RunScriptExit i d s =
     (emit_effect
        (ConsoleLog (''Cog script '' @ js_toString (id_cog (cogScript (children s ! i))) @ '' has exited''))
        (upd_child i (\<lambda>c. c\<lparr>spawnedProcessRunning := False\<rparr>) s),
      None)"
| "run_listener RunScriptStdout i d s =
     (let c = children s ! i;
          s1 = emit_effect
                 (ConsoleLog (''Cog script '' @ js_toString (id_cog (cogScript c)) @ '': '' @ d)) s
      in (if includes_str d ''message:''
          then emit_effect (StdinWrite i (stdin_payload (message c))) s1
          else s1,
          None))"
| "run_listener RunStdout i d s =
     (upd_child i (\<lambda>c. c\<lparr>consoleOutput := consoleOutput c @ d\<rparr>) s, None)"
| "run_listener RunStderr i d s =
     (upd_child i (\<lambda>c. c\<lparr>consoleOutput := consoleOutput c @ d,
                         consoleError := consoleError c @ d\<rparr>) s,
      None)"
| "run_listener RunExit i d s =
     (let c = children s ! i in
      case res c of
        None \<Rightarrow> (s, Some TypeError_null)
      | Some r \<Rightarrow>
         (case res_send (RunResult ''Script has executed successfully!''
                                   (consoleOutput c) (consoleError c)) r s of
            Inl e \<Rightarrow> (s, Some e)
          | Inr (r', s') \<Rightarrow> (upd_child i (\<lambda>c. c\<lparr>res := Some r'\<rparr>) s', None)))"

text \<open>\<^verbatim>\<open>emit\<close>: the listeners run in the order of their registration; one that throws ends it.\<close>

fun emit :: "listener list \<Rightarrow> nat \<Rightarrow> string \<Rightarrow> server \<Rightarrow> server \<times> exn option" where
  "emit [] i d s = (s, None)"
| "emit (l # ls) i d s =
     (case run_listener l i d s of
        (s', Some e) \<Rightarrow> (s', Some e)
      | (s', None) \<Rightarrow> emit ls i d s')"

text \<open>
  The callback given to \<^verbatim>\<open>setTimeout\<close>. \<^verbatim>\<open>spawnedProcess\<close> is not \<^verbatim>\<open>null\<close> here, since
  \<^verbatim>\<open>runScript\<close> got past \<^verbatim>\<open>spawnedProcess.on\<close>. \<^verbatim>\<open>removeAllListeners\<close> is called on the
  process, twice, and empties the listeners of its \<^verbatim>\<open>'exit'\<close>; the listeners of its streams
  stay. \<^verbatim>\<open>kill()\<close> sets \<^verbatim>\<open>killed\<close> when the signal reaches a process that still runs.
\<close>

definition timeout_callback :: "nat \<Rightarrow> server \<Rightarrow> server" where
  "timeout_callback i s =
     (let c = children s ! i;
          s1 = (if spawnedProcessRunning c
                then emit_effect (ConsoleWarn (''Cog script '' @ js_toString (id_cog (cogScript c))
                                               @ '' exceed execution time window'')) s
                else s)
      in if killed c then s1
         else emit_effect (Kill i)
                (upd_child i (\<lambda>c. c\<lparr>killed := (if exited c then killed c else True)\<rparr>)
                  (emit_effect (RemoveAllListeners i)
                    (emit_effect (RemoveAllListeners i)
                      (upd_child i (\<lambda>c. c\<lparr>on_exit := []\<rparr>) s1)))))"

text \<open>
  One event for child \<open>i\<close>. No listener for \<^verbatim>\<open>'error'\<close> is registered anywhere in the source,
  so that event is thrown as an exception by the emitter. A second \<^verbatim>\<open>'exit'\<close> and a second
  firing of the timer do not happen.
\<close>

definition deliver :: "nat \<Rightarrow> child_event \<Rightarrow> server \<Rightarrow> server \<times> exn option" where
  "deliver i ev s =
     (if length (children s) \<le> i then (s, None)
      else let c = children s ! i in
        case ev of
          StdoutData d \<Rightarrow> emit (on_stdout c) i d s
        | StderrData d \<Rightarrow> emit (on_stderr c) i d s
        | ProcExit \<Rightarrow>
            if exited c then (s, None)
            else emit (on_exit c) i [] (upd_child i (\<lambda>c. c\<lparr>exited := True\<rparr>) s)
        | ProcError \<Rightarrow> (s, Some Unhandled_error_event)
        | TimerFired \<Rightarrow>
            (case timer c of
               None \<Rightarrow> (s, None)
             | Some ms \<Rightarrow> (timeout_callback i (upd_child i (\<lambda>c. c\<lparr>timer := None\<rparr>) s), None)))"

text \<open>A run of the event loop; an exception that no one catches ends the process.\<close>

fun run_events :: "(nat \<times> child_event) list \<Rightarrow> server \<Rightarrow> server \<times> exn option" where
  "run_events [] s = (s, None)"
| "run_events ((i, ev) # evs) s =
     (case deliver i ev s of
        (s', Some e) \<Rightarrow> (s', Some e)
      | (s', None) \<Rightarrow> run_events evs s')"

section \<open>The cron callback and the API handlers\<close>

text \<open>
  The callback that \<^verbatim>\<open>addCronTrigger\<close> hands to \<^verbatim>\<open>nodeCron.schedule\<close>, run when \<^verbatim>\<open>Date.now()\<close>
  is \<open>now\<close> milliseconds.
\<close>

definition cron_context :: "nat \<Rightarrow> js_arg list" where
  "cron_context now = [AArr [''--time='' @ nat_toString (now div 1000)]]"

definition cron_callback :: "cogFile \<Rightarrow> nat \<Rightarrow> server \<Rightarrow> server \<times> exn option" where
  "cron_callback cf now s =
     (case runScript (id_cog cf) (cron_context now) JNull
             (emit_effect (ConsoleLog (''Running cog script '' @ js_toString (id_cog cf)
                                       @ '' from cron schedule'')) s) of
        (s', Inl e) \<Rightarrow> (s', Some e)
      | (s', Inr h) \<Rightarrow> (s', None))"

text \<open>\<^verbatim>\<open>context.push(`--${queryVar}="${req.query[queryVar]}"`)\<close> for each key of the query.\<close>

definition flatten_query :: "(string \<times> string) list \<Rightarrow> js_arg list" where
  "flatten_query q = map (\<lambda>(k, v). AStr (''--'' @ k @ ''='' @ [CHR 0x22] @ v @ [CHR 0x22])) q"

text \<open>
  \<^verbatim>\<open>POST /api/v1/trigger/:script\<close> with the route parameter, the query and
  \<^verbatim>\<open>JSON.stringify(req.body)\<close>. The branch for a disabled webhook has no \<^verbatim>\<open>return\<close>.
\<close>

definition trigger :: "string \<Rightarrow> (string \<times> string) list \<Rightarrow> string \<Rightarrow> server \<Rightarrow> server \<times> exn option" where
  "trigger script query body s =
     (case find (\<lambda>i. id_cog i = JStr script) (scripts s) of
        None \<Rightarrow>
          (case res_send (Message ''The requested script could not be found.'')
                  \<lparr>statusCode = 404, headersSent = False\<rparr>
                  (emit_effect (ConsoleError (''Could not locate cog script '' @ script
                                              @ '' in runtime'')) s) of
             Inl e \<Rightarrow> (s, Some e)
           | Inr (r, s') \<Rightarrow> (s', None))
      | Some cs \<Rightarrow>
          (case (if truthy (webhook cs) then Inr (\<lparr>statusCode = 200, headersSent = False\<rparr>, s)
                 else res_send (Message ''The requested script does not have webhooks enabled.'')
                        \<lparr>statusCode = 400, headersSent = False\<rparr> s) of
             Inl e \<Rightarrow> (s, Some e)
           | Inr (r1, s1) \<Rightarrow>
               (case runScript (id_cog cs) (flatten_query query) (JStr body) s1 of
                  (s2, Inl e) \<Rightarrow> (s2, Some e)
                | (s2, Inr h) \<Rightarrow>
                    (case res_send (Message ''Script execution has been triggered.'') r1 s2 of
                       Inl e \<Rightarrow> (s2, Some e)
                     | Inr (r2, s3) \<Rightarrow> (s3, None)))))"

text \<open>
  \<^verbatim>\<open>POST /api/v1/run/:script\<close>. After \<^verbatim>\<open>runScript\<close> the handler registers its own listeners
  on the streams and on \<^verbatim>\<open>'exit'\<close>; the response is sent by the \<^verbatim>\<open>'exit'\<close> listener.
\<close>

definition run :: "string \<Rightarrow> (string \<times> string) list \<Rightarrow> string \<Rightarrow> server \<Rightarrow> server \<times> exn option" where
  "run script query body s =
     (case find (\<lambda>i. id_cog i = JStr script) (scripts s) of
        None \<Rightarrow>
          (case res_send (Message ''The requested script could not be found.'')
                  \<lparr>statusCode = 404, headersSent = False\<rparr>
                  (emit_effect (ConsoleError (''Could not locate cog script '' @ script
                                              @ '' in runtime'')) s) of
             Inl e \<Rightarrow> (s, Some e)
           | Inr (r, s') \<Rightarrow> (s', None))
      | Some cs \<Rightarrow>
          (case (if truthy (webhook cs) then Inr (\<lparr>statusCode = 200, headersSent = False\<rparr>, s)
                 else res_send (Message ''The requested script does not have webhooks enabled.'')
                        \<lparr>statusCode = 400, headersSent = False\<rparr> s) of
             Inl e \<Rightarrow> (s, Some e)
           | Inr (r1, s1) \<Rightarrow>
               (case runScript (id_cog cs) (flatten_query query) (JStr body) s1 of
                  (s2, Inl e) \<Rightarrow> (s2, Some e)
                | (s2, Inr None) \<Rightarrow> (s2, Some TypeError_null)
                | (s2, Inr (Some i)) \<Rightarrow>
                    (upd_child i (\<lambda>c. c\<lparr>on_stdout := on_stdout c @ [RunStdout],
                                        on_stderr := on_stderr c @ [RunStderr],
                                        on_exit := on_exit c @ [RunExit],
                                        res := Some r1\<rparr>) s2,
                     None))))"

section \<open>The file system\<close>

fun parent_exists :: "path \<Rightarrow> server \<Rightarrow> bool" where
  "parent_exists Data s = True"
| "parent_exists Scripts s = (Data \<in> set (dirs s))"
| "parent_exists (ScriptDir d) s = (Scripts \<in> set (dirs s))"
| "parent_exists (ScriptFile d f) s = (ScriptDir d \<in> set (dirs s))"

definition existsSync :: "path \<Rightarrow> server \<Rightarrow> bool" where
  "existsSync p s =
     (if p \<in> set (dirs s) then True else (case files s p of None \<Rightarrow> False | Some t \<Rightarrow> True))"

definition mkdirSync :: "path \<Rightarrow> server \<Rightarrow> exn + server" where
  "mkdirSync p s =
     (if existsSync p s then Inl EEXIST
      else if parent_exists p s then Inr (s\<lparr>dirs := dirs s @ [p]\<rparr>)
      else Inl ENOENT)"

text \<open>\<^verbatim>\<open>fs.writeFileSync(path, data)\<close> checks that the data is a string before it opens the file.\<close>

definition writeFileSync :: "path \<Rightarrow> jsval \<Rightarrow> server \<Rightarrow> exn + server" where
  "writeFileSync p data s =
     (case data of
        JStr t \<Rightarrow>
          if p \<in> set (dirs s) then Inl EISDIR
          else if parent_exists p s then Inr (s\<lparr>files := (files s)(p \<mapsto> t)\<rparr>)
          else Inl ENOENT
      | _ \<Rightarrow> Inl ERR_INVALID_ARG_TYPE)"



section \<open>The UI handlers that write scripts\<close>

text \<open>
  \<^verbatim>\<open>POST /ui/new\<close>, reached after the basic-auth middleware. \<open>new_id\<close> is the result of
  \<^verbatim>\<open>hat()\<close>, \<open>t1\<close> and \<open>t2\<close> are the two readings of \<^verbatim>\<open>Date.now()\<close>, \<open>b\<close> is \<^verbatim>\<open>req.body\<close> (a
  field that is absent reads \<^verbatim>\<open>undefined\<close>). \<open>stringify\<close> stands for
  \<^verbatim>\<open>JSON.stringify(_, null, 4)\<close> and \<open>valid_cron\<close> for the check of the expression in
  \<^verbatim>\<open>nodeCron.schedule\<close>, which throws on a malformed one.
\<close>

definition entryFile :: "string \<Rightarrow> nat \<Rightarrow> nat \<Rightarrow> (string \<Rightarrow> jsval) \<Rightarrow> cogFile" where
  "entryFile new_id t1 t2 b =
     \<lparr>id_cog = JStr new_id,
      created = JNum (int (t1 div 1000)),
      updated = JNum (int (t2 div 1000)),
      name = b ''name'',
      runtime = b ''runtime'',
      webhook = b ''webhook'',
      cron = b ''cron'',
      cronSchedule = b ''cronSchedule'',
      entrypoint = JNull,
      timeout = JNum 30000,
      cronTask = False\<rparr>"

text \<open>\<^verbatim>\<open>addCronTrigger(cogFile)\<close> on the descriptor that was pushed last: the schedule call may
  throw; otherwise the task handle is attached to the descriptor.\<close>

definition addCronTrigger :: "(jsval \<Rightarrow> bool) \<Rightarrow> server \<Rightarrow> exn + server" where
  "addCronTrigger valid_cron s =
     (if valid_cron (cronSchedule (last (scripts s)))
      then Inr (s\<lparr>scripts := butlast (scripts s) @ [(last (scripts s))\<lparr>cronTask := True\<rparr>]\<rparr>)
      else Inl InvalidCron)"

definition ui_new ::
  "(cogFile \<Rightarrow> string) \<Rightarrow> (jsval \<Rightarrow> bool) \<Rightarrow> string \<Rightarrow> nat \<Rightarrow> nat \<Rightarrow> (string \<Rightarrow> jsval) \<Rightarrow> server
     \<Rightarrow> server \<times> exn option" where
  "ui_new stringify valid_cron new_id t1 t2 b s =
     (case mkdirSync (ScriptDir new_id) s of
        Inl e \<Rightarrow> (s, Some e)
      | Inr s1 \<Rightarrow>
         (let ef0 = entryFile new_id t1 t2 b;
              ef = (if b ''runtime'' = JStr ''nodejs'' then ef0\<lparr>entrypoint := JStr ''app.js''\<rparr> else ef0)
          in case (if b ''runtime'' = JStr ''nodejs''
                   then writeFileSync (ScriptFile new_id ''app.js'') (b ''code'') s1
                   else Inr s1) of
               Inl e \<Rightarrow> (s1, Some e)
             | Inr s2 \<Rightarrow>
                (case writeFileSync (ScriptFile new_id ''.cog'') (JStr (stringify ef)) s2 of
                   Inl e \<Rightarrow> (s2, Some e)
                 | Inr s3 \<Rightarrow>
                    (let s4 = s3\<lparr>scripts := scripts s3 @ [ef]\<rparr> in
                     case (if truthy (b ''cron'') then addCronTrigger valid_cron s4 else Inr s4) of
                       Inl e \<Rightarrow> (s4, Some e)
                     | Inr s5 \<Rightarrow>
                        (case res_send (IdBody (JStr new_id))
                                \<lparr>statusCode = 200, headersSent = False\<rparr> s5 of
                           Inl e \<Rightarrow> (s5, Some e)
                         | Inr (r, s6) \<Rightarrow> (s6, None))))))"

text \<open>\<^verbatim>\<open>POST /ui/scripts/:script\<close>: the update of an existing script.\<close>

definition update :: "string \<Rightarrow> (string \<Rightarrow> jsval) \<Rightarrow> server \<Rightarrow> server \<times> exn option" where
  "update script b s =
     (case find (\<lambda>i. id_cog i = JStr script) (scripts s) of
        None \<Rightarrow>
          (case res_send (Text ''404'') \<lparr>statusCode = 404, headersSent = False\<rparr> s of
             Inl e \<Rightarrow> (s, Some e)
           | Inr (r, s') \<Rightarrow> (s', None))
      | Some cs \<Rightarrow>
          (case writeFileSync (script_file cs) (b ''code'') s of
             Inl e \<Rightarrow> (s, Some e)
           | Inr s1 \<Rightarrow>
              (case res_send (IdBody (id_cog cs)) \<lparr>statusCode = 200, headersSent = False\<rparr> s1 of
                 Inl e \<Rightarrow> (s1, Some e)
               | Inr (r, s2) \<Rightarrow> (s2, None))))"

section \<open>The startup load\<close>








section \<open>Example states\<close>

text \<open>
  A descriptor as \<^verbatim>\<open>POST /ui/new\<close> stores it for a Node.js script with webhook and cron
  enabled, the same descriptor as it sits in the registry (with its cron task), and a
  server that holds this one script.
\<close>

definition stored_script :: cogFile where
  "stored_script =
     \<lparr>id_cog = JStr ''s1'', created = JNum 1, updated = JNum 1, name = JStr ''demo'',
      runtime = JStr ''nodejs'', webhook = JBool True, cron = JBool True,
      cronSchedule = JStr ''* * * * *'', entrypoint = JStr ''app.js'', timeout = JNum 30000,
      cronTask = False\<rparr>"

definition example_script :: cogFile where
  "example_script = stored_script\<lparr>cronTask := True\<rparr>"

definition example_server :: server where
  "example_server =
     \<lparr>scripts = [example_script],
      dirs = [Data, Scripts, ScriptDir ''s1''],
      files = [ScriptFile ''s1'' ''app.js'' \<mapsto> ''code'', ScriptFile ''s1'' ''.cog'' \<mapsto> ''json''],
      children = [],
      effects = []\<rparr>"

text \<open>The same server with the webhook of the script switched off.\<close>

definition webhook_off_server :: server where
  "webhook_off_server = example_server\<lparr>scripts := [example_script\<lparr>webhook := JBool False\<rparr>]\<rparr>"






text \<open>A registration request that also carries a \<^verbatim>\<open>timeout\<close> field.\<close>

definition new_request :: "string \<Rightarrow> jsval" where
  "new_request =
     (\<lambda>k. JUndefined)(''name'' := JStr ''demo'', ''runtime'' := JStr ''nodejs'',
       ''webhook'' := JStr ''on'', ''code'' := JStr ''code'', ''timeout'' := JNum 5)"

definition update_request :: "string \<Rightarrow> jsval" where
  "update_request = (\<lambda>k. JUndefined)(''code'' := JStr ''new code'')"

text \<open>
  Stand-ins for the two library functions of the handlers: a cron check that accepts every
  expression, and a rendering of a descriptor that shows its id and its timeout.
\<close>

definition accept_cron :: "jsval \<Rightarrow> bool" where
  "accept_cron c = True"

definition stringify_example :: "cogFile \<Rightarrow> string" where
  "stringify_example cf = js_toString (id_cog cf) @ '' timeout='' @ js_toString (timeout cf)"

section \<open>Facts about the string functions and the file system\<close>

lemma starts_with_iff: "starts_with s p \<longleftrightarrow> (\<exists>b. s = p @ b)"
  by (induction s p rule: starts_with.induct) auto

text \<open>\<open>includes_str\<close> is the substring test.\<close>

lemma includes_str_iff: "includes_str s p \<longleftrightarrow> (\<exists>a b. s = a @ p @ b)"
proof (induction s)
  case Nil
  then show ?case by auto
next
  case (Cons c cs)
  show ?case
  proof
    assume "includes_str (c # cs) p"
    then consider "starts_with (c # cs) p" | "includes_str cs p" by auto
    then show "\<exists>a b. c # cs = a @ p @ b"
    proof cases
      case 1
      then obtain b where "c # cs = p @ b" by (auto simp: starts_with_iff)
      then have "c # cs = [] @ p @ b" by simp
      then show ?thesis by blast
    next
      case 2
      then obtain a b where "cs = a @ p @ b" using Cons.IH by auto
      then have "c # cs = (c # a) @ p @ b" by simp
      then show ?thesis by blast
    qed
  next
    assume "\<exists>a b. c # cs = a @ p @ b"
    then obtain a b where ab: "c # cs = a @ p @ b" by blast
    show "includes_str (c # cs) p"
    proof (cases a)
      case Nil
      with ab have "starts_with (c # cs) p" by (auto simp: starts_with_iff)
      then show ?thesis by simp
    next
      case (Cons x xs)
      with ab have "cs = xs @ p @ b" by simp
      then have "includes_str cs p" using Cons.IH by blast
      then show ?thesis by simp
    qed
  qed
qed

text \<open>The payload written to stdin is never the empty line: the fallback is dead code.\<close>

lemma stdin_payload_eq: "stdin_payload msg = js_toString msg @ [CHR 0x0A]"
  by (simp add: stdin_payload_def Let_def)




section \<open>The startup load, step by step\<close>




section \<open>The listeners and the timeout in any state\<close>

text \<open>
  The stdout listener of \<^verbatim>\<open>runScript\<close> consults no state: on every chunk that contains
  \<^verbatim>\<open>message:\<close> it writes the payload to stdin.
\<close>

lemma stdout_listener_writes_on_every_match:
  "includes_str d ''message:'' \<Longrightarrow>
   effects (fst (run_listener RunScriptStdout i d s)) =
     effects s @ [ConsoleLog (''Cog script '' @ js_toString (id_cog (cogScript (children s ! i)))
                              @ '': '' @ d),
                  StdinWrite i (js_toString (message (children s ! i)) @ [CHR 0x0A])]"
  by (simp add: Let_def emit_effect_def stdin_payload_eq)

text \<open>
  A natural exit of a child that only \<^verbatim>\<open>runScript\<close> listens to leaves its timer armed and
  its \<^verbatim>\<open>killed\<close> property as it was.
\<close>

lemma exit_keeps_timer:
  assumes "i < length (children s)" and "on_exit (children s ! i) = [RunScriptExit]"
    and "exited (children s ! i) = False"
  shows "timer (children (fst (deliver i ProcExit s)) ! i) = timer (children s ! i) \<and>
         killed (children (fst (deliver i ProcExit s)) ! i) = killed (children s ! i) \<and>
         exited (children (fst (deliver i ProcExit s)) ! i) = True \<and>
         spawnedProcessRunning (children (fst (deliver i ProcExit s)) ! i) = False"
  using assms by (simp add: deliver_def Let_def upd_child_def emit_effect_def)

text \<open>
  When the timer of a child fires and \<^verbatim>\<open>kill()\<close> has not been called on it before, the
  callback removes the listeners of the process and calls \<^verbatim>\<open>kill()\<close>, whether or not the
  child has exited.
\<close>

lemma timeout_always_kills:
  assumes "i < length (children s)" and "timer (children s ! i) = Some ms"
    and "killed (children s ! i) = False"
  shows "effects (fst (deliver i TimerFired s)) =
           effects s @
           (if spawnedProcessRunning (children s ! i)
            then [ConsoleWarn (''Cog script '' @ js_toString (id_cog (cogScript (children s ! i)))
                               @ '' exceed execution time window'')]
            else []) @
           [RemoveAllListeners i, RemoveAllListeners i, Kill i] \<and>
         on_exit (children (fst (deliver i TimerFired s)) ! i) = [] \<and>
         on_stdout (children (fst (deliver i TimerFired s)) ! i) = on_stdout (children s ! i) \<and>
         on_stderr (children (fst (deliver i TimerFired s)) ! i) = on_stderr (children s ! i)"
  using assms
  by (simp add: deliver_def Let_def upd_child_def emit_effect_def timeout_callback_def)

text \<open>Once the listeners of the process are gone, its exit produces no effect at all.\<close>

lemma exit_without_listeners:
  assumes "i < length (children s)" and "on_exit (children s ! i) = []"
  shows "effects (fst (deliver i ProcExit s)) = effects s \<and> snd (deliver i ProcExit s) = None"
  using assms by (simp add: deliver_def Let_def upd_child_def)

text \<open>
  A trigger for a Node.js script whose webhook flag is falsy: the 400 response leaves, the
  child is spawned all the same, and the handler ends in the exception of the second send.
\<close>

lemma trigger_without_webhook:
  assumes "find (\<lambda>i. id_cog i = JStr script) (scripts s) = Some cs"
    and "truthy (webhook cs) = False" and "runtime cs = JStr ''nodejs''"
  shows "effects (fst (trigger script query body s)) =
           effects s @ [Respond 400 (Message ''The requested script does not have webhooks enabled.'')] \<and>
         length (children (fst (trigger script query body s))) = Suc (length (children s)) \<and>
         snd (trigger script query body s) = Some ERR_HTTP_HEADERS_SENT"
proof -
  from assms(1) have "id_cog cs = JStr script"
    by (auto simp: find_Some_iff)
  then have "find (\<lambda>i. id_cog i = id_cog cs) (scripts s) = Some cs"
    using assms(1) by simp
  then show ?thesis
    using assms by (simp add: trigger_def runScript_def res_send_def emit_effect_def)
qed

section \<open>The stdin handshake\<close>

text \<open>
  C1. The specification: the handshake fires at most once for an invocation, on the first stdout
  chunk that contains \<^verbatim>\<open>message:\<close>, and later chunks with it are ignored. The code declares
  \<^verbatim>\<open>spawnedProcessMessageSent\<close> and never reads or sets it: for a triggered script whose stdout
  brings two chunks that both contain \<^verbatim>\<open>message:\<close>, the payload is written to stdin twice,
  and the flag is still \<^verbatim>\<open>false\<close> afterwards.
\<close>

theorem handshake_fires_on_every_match:
  "effects (fst (run_events [(0, StdoutData ''message: a''), (0, StdoutData ''message: b'')]
                  (fst (trigger ''s1'' [] ''{}'' example_server)))) =
     [Respond 200 (Message ''Script execution has been triggered.''),
      ConsoleLog ''Cog script s1: message: a'', StdinWrite 0 (''{}'' @ [CHR 0x0A]),
      ConsoleLog ''Cog script s1: message: b'', StdinWrite 0 (''{}'' @ [CHR 0x0A])] \<and>
   map spawnedProcessMessageSent
     (children (fst (run_events [(0, StdoutData ''message: a''), (0, StdoutData ''message: b'')]
                       (fst (trigger ''s1'' [] ''{}'' example_server))))) = [False]"
  by (simp add: example_server_def example_script_def stored_script_def trigger_def runScript_def
        res_send_def emit_effect_def deliver_def stdin_payload_def flatten_query_def
        script_file_def)

text \<open>
  C6. The specification: with no message payload (a cron-fired invocation), the handshake writes an
  empty line and a newline. In \<^verbatim>\<open>message + '\n' || '\n'\<close> the sum is formed first, so for the
  payload \<^verbatim>\<open>null\<close> of the cron callback the line written is the text \<^verbatim>\<open>null\<close> and a newline.
\<close>

theorem cron_handshake_writes_null_line:
  "effects (fst (run_events [(0, StdoutData ''message:'')]
                  (fst (cron_callback example_script 5000 example_server)))) =
     [ConsoleLog ''Running cog script s1 from cron schedule'',
      ConsoleLog ''Cog script s1: message:'',
      StdinWrite 0 (''null'' @ [CHR 0x0A])]"
  by (simp add: example_server_def example_script_def stored_script_def cron_callback_def
        cron_context_def runScript_def emit_effect_def deliver_def stdin_payload_def
        script_file_def)

section \<open>The timeout\<close>

text \<open>
  C5. The specification: the termination logic checks that the child has not exited before it sends
  a kill signal, and the timer is cancelled on normal exit, so a process that exited by
  itself is never sent one. The \<^verbatim>\<open>'exit'\<close> listener only clears \<^verbatim>\<open>spawnedProcessRunning\<close>: the
  timer stays armed, and when it fires its callback tests \<^verbatim>\<open>killed\<close>, which is still
  \<^verbatim>\<open>false\<close>, and calls \<^verbatim>\<open>kill()\<close> on the process that has exited.
\<close>

theorem kill_issued_after_natural_exit:
  "map timer (children (fst (run_events [(0, ProcExit)]
                              (fst (trigger ''s1'' [] ''{}'' example_server))))) = [Some (JNum 30000)] \<and>
   effects (fst (run_events [(0, ProcExit), (0, TimerFired)]
                  (fst (trigger ''s1'' [] ''{}'' example_server)))) =
     [Respond 200 (Message ''Script execution has been triggered.''),
      ConsoleLog ''Cog script s1 has exited'',
      RemoveAllListeners 0, RemoveAllListeners 0, Kill 0]"
  by (simp add: example_server_def example_script_def stored_script_def trigger_def runScript_def
        res_send_def emit_effect_def deliver_def upd_child_def timeout_callback_def Let_def
        flatten_query_def script_file_def)

text \<open>
  C3. The specification: when the child of a synchronous run outlives the timeout, it is killed and
  the waiting caller still receives the outcome with the output captured so far. The
  timeout callback removes every listener of the process, among them the \<^verbatim>\<open>'exit'\<close> listener
  of the run handler that sends the response: after a chunk, the timeout and the exit of
  the killed process no response has left, while the listeners of the streams are still
  in place. Without the timeout the same run answers on exit.
\<close>

theorem run_timeout_sends_no_response:
  "effects (fst (run_events [(0, StdoutData ''partial''), (0, TimerFired), (0, ProcExit)]
                  (fst (run ''s1'' [] ''{}'' example_server)))) =
     [ConsoleLog ''Cog script s1: partial'',
      ConsoleWarn ''Cog script s1 exceed execution time window'',
      RemoveAllListeners 0, RemoveAllListeners 0, Kill 0] \<and>
   map on_stdout (children (fst (run_events [(0, StdoutData ''partial''), (0, TimerFired), (0, ProcExit)]
                                   (fst (run ''s1'' [] ''{}'' example_server))))) =
     [[RunScriptStdout, RunStdout]] \<and>
   effects (fst (run_events [(0, StdoutData ''partial''), (0, ProcExit)]
                  (fst (run ''s1'' [] ''{}'' example_server)))) =
     [ConsoleLog ''Cog script s1: partial'',
      ConsoleLog ''Cog script s1 has exited'',
      Respond 200 (RunResult ''Script has executed successfully!'' ''partial'' [])]"
  by (simp add: example_server_def example_script_def stored_script_def run_def runScript_def
        res_send_def emit_effect_def deliver_def upd_child_def timeout_callback_def Let_def
        flatten_query_def script_file_def)

section \<open>The trigger endpoint\<close>

text \<open>
  C2. The specification: a trigger for an unknown script is answered with 404, one for a script
  with the webhook disabled with 400 and no child process, any other with 200. The 404
  branch ends with \<^verbatim>\<open>return\<close>, the 400 branch does not: after the 400 response the handler
  goes on, \<^verbatim>\<open>runScript\<close> spawns the child, and the second \<^verbatim>\<open>res.send\<close> throws.
\<close>

theorem trigger_webhook_disabled_still_spawns:
  "effects (fst (trigger ''s1'' [] ''{}'' webhook_off_server)) =
     [Respond 400 (Message ''The requested script does not have webhooks enabled.'')] \<and>
   map command (children (fst (trigger ''s1'' [] ''{}'' webhook_off_server))) = [''node''] \<and>
   map args (children (fst (trigger ''s1'' [] ''{}'' webhook_off_server))) =
     [[AStr ''./data/scripts/s1/app.js'']] \<and>
   snd (trigger ''s1'' [] ''{}'' webhook_off_server) = Some ERR_HTTP_HEADERS_SENT \<and>
   effects (fst (trigger ''nobody'' [] ''{}'' webhook_off_server)) =
     [ConsoleError ''Could not locate cog script nobody in runtime'',
      Respond 404 (Message ''The requested script could not be found.'')] \<and>
   children (fst (trigger ''nobody'' [] ''{}'' webhook_off_server)) = []"
  by (simp add: webhook_off_server_def example_server_def example_script_def stored_script_def
        trigger_def runScript_def res_send_def emit_effect_def flatten_query_def script_file_def)

section \<open>Unsupported runtimes and spawn failures\<close>




section \<open>The cron callback\<close>



section \<open>Updating a script\<close>

text \<open>
  C8, as the spec states it: an update rewrites the entrypoint content, refreshes the
  \<^verbatim>\<open>updated\<close> timestamp of the descriptor and persists the changed descriptor. The handler
  of \<^verbatim>\<open>POST /ui/scripts/:script\<close> only writes the entry file: after a successful update of
  the example script, whose descriptor dates from second 1, \<^verbatim>\<open>updated\<close> is still 1 and the
  \<^verbatim>\<open>.cog\<close> file is what it was.
\<close>

theorem update_keeps_descriptor_counterexample:
  "snd (update ''s1'' update_request example_server) = None \<and>
   files (fst (update ''s1'' update_request example_server)) (ScriptFile ''s1'' ''app.js'')
     = Some ''new code'' \<and>
   map updated (scripts (fst (update ''s1'' update_request example_server))) = [JNum 1] \<and>
   files (fst (update ''s1'' update_request example_server)) (ScriptFile ''s1'' ''.cog'')
     = Some ''json''"
  by (simp add: update_def update_request_def example_server_def example_script_def
        stored_script_def writeFileSync_def res_send_def emit_effect_def script_file_def)

text \<open>
  C8, amended: an update of an existing script that succeeds rewrites the entrypoint
  content and nothing else: the code sent is a string and becomes the content of the
  entry file, every other file and every directory is as before, the descriptors of the
  registry (with their \<^verbatim>\<open>updated\<close> timestamps) are unchanged, and the response is the id.
\<close>

theorem update_rewrites_entrypoint_only:
  "find (\<lambda>i. id_cog i = JStr script) (scripts s) = Some cs \<Longrightarrow>
   snd (update script b s) = None \<Longrightarrow>
   b ''code'' = JStr (js_toString (b ''code'')) \<and>
   files (fst (update script b s)) = (files s)(script_file cs \<mapsto> js_toString (b ''code'')) \<and>
   dirs (fst (update script b s)) = dirs s \<and>
   scripts (fst (update script b s)) = scripts s \<and>
   effects (fst (update script b s)) = effects s @ [Respond 200 (IdBody (id_cog cs))]"
  by (auto simp: update_def res_send_def emit_effect_def writeFileSync_def
           split: sum.splits if_splits jsval.splits)

text \<open>C8, amended, at the update of the example script.\<close>

theorem update_rewrites_entrypoint_only_witness:
  "find (\<lambda>i. id_cog i = JStr ''s1'') (scripts example_server) = Some example_script \<and>
   snd (update ''s1'' update_request example_server) = None \<and>
   files (fst (update ''s1'' update_request example_server))
     = (files example_server)(ScriptFile ''s1'' ''app.js'' \<mapsto> ''new code'') \<and>
   scripts (fst (update ''s1'' update_request example_server)) = [example_script] \<and>
   effects (fst (update ''s1'' update_request example_server)) = [Respond 200 (IdBody (JStr ''s1''))]"
proof -
  have h1: "find (\<lambda>i. id_cog i = JStr ''s1'') (scripts example_server) = Some example_script"
    by (simp add: example_server_def example_script_def stored_script_def)
  have h2: "snd (update ''s1'' update_request example_server) = None"
    by (simp add: update_def update_request_def example_server_def example_script_def
          stored_script_def writeFileSync_def res_send_def emit_effect_def script_file_def)
  have h3: "script_file example_script = ScriptFile ''s1'' ''app.js''"
    by (simp add: script_file_def example_script_def stored_script_def)
  have h4: "scripts example_server = [example_script]" "effects example_server = []"
    by (simp_all add: example_server_def)
  have h5: "update_request ''code'' = JStr ''new code''" "id_cog example_script = JStr ''s1''"
    by (simp_all add: update_request_def example_script_def stored_script_def)
  show ?thesis
    using update_rewrites_entrypoint_only [OF h1 h2] h1 h2 h3 h4 h5 by simp
qed

section \<open>The startup load\<close>




section \<open>Registration\<close>

text \<open>
  C10. Every descriptor created through the registration endpoint has its timeout set to
  exactly 30000 milliseconds, whatever the request holds: \<^verbatim>\<open>POST /ui/new\<close> adds at most one
  descriptor to the registry, and that one has the timeout 30000; when the handler
  succeeds it has added one, with the generated id, and the \<^verbatim>\<open>.cog\<close> file written is the
  rendering of that descriptor.
\<close>

theorem ui_new_timeout_30000:
  "(scripts (fst (ui_new stringify valid_cron new_id t1 t2 b s)) = scripts s \<or>
    scripts (fst (ui_new stringify valid_cron new_id t1 t2 b s))
      = scripts s @ [last (scripts (fst (ui_new stringify valid_cron new_id t1 t2 b s)))] \<and>
    timeout (last (scripts (fst (ui_new stringify valid_cron new_id t1 t2 b s)))) = JNum 30000) \<and>
   (snd (ui_new stringify valid_cron new_id t1 t2 b s) = None \<longrightarrow>
    scripts (fst (ui_new stringify valid_cron new_id t1 t2 b s))
      = scripts s @ [last (scripts (fst (ui_new stringify valid_cron new_id t1 t2 b s)))] \<and>
    id_cog (last (scripts (fst (ui_new stringify valid_cron new_id t1 t2 b s)))) = JStr new_id \<and>
    timeout (last (scripts (fst (ui_new stringify valid_cron new_id t1 t2 b s)))) = JNum 30000 \<and>
    files (fst (ui_new stringify valid_cron new_id t1 t2 b s)) (ScriptFile new_id ''.cog'')
      = Some (stringify ((last (scripts (fst (ui_new stringify valid_cron new_id t1 t2 b s))))
                           \<lparr>cronTask := False\<rparr>)))"
proof -
  have created: "scripts (fst (ui_new stringify valid_cron new_id t1 t2 b s)) = scripts s \<or>
    scripts (fst (ui_new stringify valid_cron new_id t1 t2 b s))
      = scripts s @ [last (scripts (fst (ui_new stringify valid_cron new_id t1 t2 b s)))] \<and>
    timeout (last (scripts (fst (ui_new stringify valid_cron new_id t1 t2 b s)))) = JNum 30000"
    by (auto simp: ui_new_def Let_def entryFile_def addCronTrigger_def res_send_def
          emit_effect_def writeFileSync_def mkdirSync_def
          split: sum.splits if_splits jsval.splits)
  have succ: "snd (ui_new stringify valid_cron new_id t1 t2 b s) = None \<Longrightarrow>
    scripts (fst (ui_new stringify valid_cron new_id t1 t2 b s))
      = scripts s @ [last (scripts (fst (ui_new stringify valid_cron new_id t1 t2 b s)))] \<and>
    id_cog (last (scripts (fst (ui_new stringify valid_cron new_id t1 t2 b s)))) = JStr new_id \<and>
    timeout (last (scripts (fst (ui_new stringify valid_cron new_id t1 t2 b s)))) = JNum 30000 \<and>
    files (fst (ui_new stringify valid_cron new_id t1 t2 b s)) (ScriptFile new_id ''.cog'')
      = Some (stringify ((last (scripts (fst (ui_new stringify valid_cron new_id t1 t2 b s))))
                           \<lparr>cronTask := False\<rparr>))"
    by (auto simp: ui_new_def Let_def entryFile_def addCronTrigger_def res_send_def
          emit_effect_def writeFileSync_def mkdirSync_def
          split: sum.splits if_splits jsval.splits)
  from created succ show ?thesis by blast
qed

text \<open>C10 at a request that carries \<^verbatim>\<open>timeout: 5\<close>: the descriptor stored has 30000.\<close>

theorem ui_new_timeout_30000_witness:
  "snd (ui_new stringify_example accept_cron ''s2'' 5000 5000 new_request example_server) = None \<and>
   map timeout (scripts (fst (ui_new stringify_example accept_cron ''s2'' 5000 5000 new_request
                                example_server)))
     = [JNum 30000, JNum 30000] \<and>
   files (fst (ui_new stringify_example accept_cron ''s2'' 5000 5000 new_request example_server))
         (ScriptFile ''s2'' ''.cog'')
     = Some ''s2 timeout=30000''"
proof -
  let ?r = "ui_new stringify_example accept_cron ''s2'' 5000 5000 new_request example_server"
  have h: "snd ?r = None"
    by (simp add: ui_new_def Let_def entryFile_def res_send_def emit_effect_def writeFileSync_def
          mkdirSync_def existsSync_def new_request_def example_server_def)
  note T = ui_new_timeout_30000 [of stringify_example accept_cron "''s2''" 5000 5000 new_request
                                    example_server]
  have a: "scripts (fst ?r) = scripts example_server @ [last (scripts (fst ?r))]"
    and b: "id_cog (last (scripts (fst ?r))) = JStr ''s2''"
    and c: "timeout (last (scripts (fst ?r))) = JNum 30000"
    and d: "files (fst ?r) (ScriptFile ''s2'' ''.cog'')
              = Some (stringify_example ((last (scripts (fst ?r)))\<lparr>cronTask := False\<rparr>))"
    using T h by blast+
  have t: "num_toString 30000 = ''30000''"
    by (simp add: num_toString_def nat_toString.simps)
  have s: "map timeout (scripts example_server) = [JNum 30000]"
    by (simp add: example_server_def example_script_def stored_script_def)
  have "map timeout (scripts (fst ?r))
          = map timeout (scripts example_server @ [last (scripts (fst ?r))])"
    by (rule arg_cong [OF a])
  then have e: "map timeout (scripts (fst ?r)) = [JNum 30000, JNum 30000]"
    using s c by simp
  have f: "files (fst ?r) (ScriptFile ''s2'' ''.cog'') = Some ''s2 timeout=30000''"
    using d b c t by (simp add: stringify_example_def)
  show ?thesis using h e f by simp
qed

end
